theory Spec2Isabelle
  imports Complex_Main
begin

section \<open>Data model\<close>

text \<open>
  Prices, volumes and pip amounts are Python floats in the source; they are modelled as
  exact reals, so rounding error of the floating-point arithmetic is not part of the model.
  A pandas cell that holds NaN is modelled by \<open>None\<close>; every comparison with NaN is false.
\<close>

datatype py_error = IndexError | ValueError

record timestamp =
  day :: nat
  hour :: nat
  minute :: nat

text \<open>One row of the price dataframe; the dataframe's index is the timestamp.\<close>

record bar =
  name :: timestamp
  open_price :: real
  high :: real
  low :: real
  close :: real
  volume :: real

text \<open>The signal dictionary built by \<open>detect_signals\<close> and read by \<open>execute_trades\<close>.\<close>

record signal =
  timestamp :: timestamp
  direction :: string
  entry_price :: real
  stop_loss :: real
  tp1 :: real
  tp2 :: real
  level_type :: string
  entry_index :: int

datatype exit_reason = STOP_LOSS | TP2 | TP1 | TIME_STOP

text \<open>
  The trade dictionary appended by \<open>execute_trades\<close>. Its keys \<open>direction\<close>, \<open>entry_price\<close>
  and \<open>level_type\<close> carry the prefix \<open>t_\<close> here, the plain names being fields of \<open>signal\<close>.
\<close>

record trade =
  entry_time :: timestamp
  t_direction :: string
  t_entry_price :: real
  exit_price :: real
  exit_reason :: exit_reason
  pips :: real
  win :: bool
  bars_in_trade :: nat
  t_level_type :: string

text \<open>
  \<open>df.iloc[i]\<close>: positional indexing, a negative position counts from the end, a position
  outside the frame raises IndexError.
\<close>

definition iloc :: "'a list \<Rightarrow> int \<Rightarrow> py_error + 'a" where
  "iloc df i =
     (if 0 \<le> i \<and> i < int (length df) then Inr (df ! nat i)
      else if i < 0 \<and> - int (length df) \<le> i then Inr (df ! nat (int (length df) + i))
      else Inl IndexError)"

text \<open>\<open>range(a, b)\<close> over Python integers.\<close>

definition py_range :: "int \<Rightarrow> int \<Rightarrow> int list" where
  "py_range a b = [a..b - 1]"

section \<open>Backtest engine: \<^verbatim>\<open>BacktestEngine.execute_trades\<close>\<close>

text \<open>
  The if/elif chain of lines 49-81, run on one forward bar: \<open>Some (exit_price, exit_reason)\<close>
  when a branch breaks out of the loop, \<open>None\<close> when the loop goes on to the next bar.
\<close>

definition check_exit :: "string \<Rightarrow> bar \<Rightarrow> real \<Rightarrow> real \<Rightarrow> real \<Rightarrow> (real \<times> exit_reason) option" where
  "check_exit dir b sl t1 t2 =
     (if dir = ''LONG'' then
        (if low b \<le> sl then Some (sl, STOP_LOSS)
         else if high b \<ge> t2 then Some (t2, TP2)
         else if high b \<ge> t1 then Some (t1, TP1)
         else None)
      else if dir = ''SHORT'' then
        (if high b \<ge> sl then Some (sl, STOP_LOSS)
         else if low b \<le> t2 then Some (t2, TP2)
         else if low b \<le> t1 then Some (t1, TP1)
         else None)
      else None)"

text \<open>
  The forward loop of lines 45-81 over the positions still to visit, threading the
  counter \<open>bars_in_trade\<close> (here \<open>n\<close>); the result is the exit found (if any) and the
  final counter. Local variables are abbreviated (\<open>dir\<close>, \<open>sl\<close>, \<open>t1\<close>, \<open>t2\<close>, \<open>ep\<close>,
  \<open>xp\<close>, \<open>xr\<close>, \<open>p\<close>) because the dictionary keys of the source are the record fields.
\<close>

fun find_exit :: "bar list \<Rightarrow> string \<Rightarrow> real \<Rightarrow> real \<Rightarrow> real \<Rightarrow> int list \<Rightarrow> nat
    \<Rightarrow> py_error + ((real \<times> exit_reason) option \<times> nat)" where
  "find_exit df dir sl t1 t2 [] n = Inr (None, n)"
| "find_exit df dir sl t1 t2 (i # rest) n =
     (case iloc df i of
        Inl e \<Rightarrow> Inl e
      | Inr b \<Rightarrow>
          (case check_exit dir b sl t1 t2 of
             Some ex \<Rightarrow> Inr (Some ex, n + 1)
           | None \<Rightarrow> find_exit df dir sl t1 t2 rest (n + 1)))"

definition max_bars :: int where
  "max_bars = 60"

text \<open>The positions visited by the forward loop: \<open>range(entry_idx + 1, min(entry_idx + max_bars, len(df)))\<close>.\<close>

definition forward_range :: "bar list \<Rightarrow> int \<Rightarrow> int list" where
  "forward_range df entry_idx = py_range (entry_idx + 1) (min (entry_idx + max_bars) (int (length df)))"

text \<open>The body of the loop over the signals (lines 32-106): one signal gives one trade.\<close>

definition execute_trade :: "bar list \<Rightarrow> signal \<Rightarrow> py_error + trade" where
  "execute_trade df sg =
     (let entry_idx = entry_index sg;
          ep = entry_price sg;
          dir = direction sg
      in case find_exit df dir (stop_loss sg) (tp1 sg) (tp2 sg) (forward_range df entry_idx) 0 of
           Inl e \<Rightarrow> Inl e
         | Inr (found, n) \<Rightarrow>
             (case (case found of
                      Some ex \<Rightarrow> Inr ex
                    | None \<Rightarrow>
                        (case iloc df (min (entry_idx + max_bars - 1) (int (length df) - 1)) of
                           Inl e \<Rightarrow> Inl e
                         | Inr b \<Rightarrow> Inr (close b, TIME_STOP))) of
                Inl e \<Rightarrow> Inl e
              | Inr (xp, xr) \<Rightarrow>
                  (let p = (if dir = ''LONG''
                            then (xp - ep) / 0.0001
                            else (ep - xp) / 0.0001)
                   in Inr \<lparr> entry_time = timestamp sg,
                            t_direction = dir,
                            t_entry_price = ep,
                            exit_price = xp,
                            exit_reason = xr,
                            pips = p,
                            win = (p > 0),
                            bars_in_trade = n,
                            t_level_type = level_type sg \<rparr>)))"

fun execute_trades_loop :: "bar list \<Rightarrow> signal list \<Rightarrow> trade list \<Rightarrow> py_error + trade list" where
  "execute_trades_loop df [] trades = Inr trades"
| "execute_trades_loop df (sg # signals) trades =
     (case execute_trade df sg of
        Inl e \<Rightarrow> Inl e
      | Inr t \<Rightarrow> execute_trades_loop df signals (trades @ [t]))"

definition execute_trades :: "bar list \<Rightarrow> signal list \<Rightarrow> py_error + trade list" where
  "execute_trades df signals = execute_trades_loop df signals []"

section \<open>Backtest engine: \<^verbatim>\<open>BacktestEngine.calculate_metrics\<close>\<close>

text \<open>The metrics dictionary returned by \<open>calculate_metrics\<close>.\<close>

record metrics =
  total_trades :: nat
  winners :: nat
  losers :: nat
  win_rate :: real
  total_pips :: real
  avg_pips :: real
  avg_win_pips :: real
  avg_loss_pips :: real
  profit_factor :: real
  avg_bars_in_trade :: real

text \<open>
  \<open>Series.sum()\<close> and \<open>Series.mean()\<close>. The source calls \<open>mean\<close> only on a series it has
  checked to be non-empty.
\<close>

definition series_sum :: "real list \<Rightarrow> real" where
  "series_sum xs = sum_list xs"

definition series_mean :: "real list \<Rightarrow> real" where
  "series_mean xs = sum_list xs / real (length xs)"

text \<open>Lines 135-136: the rows with \<open>win == True\<close> and the rows with \<open>win == False\<close>.\<close>

definition winners_of :: "trade list \<Rightarrow> trade list" where
  "winners_of trades_df = filter (\<lambda>t. win t = True) trades_df"

definition losers_of :: "trade list \<Rightarrow> trade list" where
  "losers_of trades_df = filter (\<lambda>t. win t = False) trades_df"

text \<open>Lines 143-144.\<close>

definition gross_profit :: "trade list \<Rightarrow> real" where
  "gross_profit trades_df =
     (if length (winners_of trades_df) > 0 then series_sum (map pips (winners_of trades_df)) else 0)"

definition gross_loss :: "trade list \<Rightarrow> real" where
  "gross_loss trades_df =
     (if length (losers_of trades_df) > 0 then \<bar>series_sum (map pips (losers_of trades_df))\<bar> else 0)"

text \<open>
  Python's built-in \<open>round(x, ndigits)\<close> is a parameter \<open>rnd\<close> of the model. It is applied to
  binary64 values (the float quotient, mean or sum), and which of two neighbouring two-decimal
  values it returns near a tie depends on that representation: \<open>round(203.0 / 200.0, 2)\<close> is
  1.01, because the float quotient lies just below 1.015. The exact reals of this model cannot
  decide that, so nothing is assumed about \<open>rnd\<close> except where a theorem says so.
\<close>

definition calculate_metrics :: "(real \<Rightarrow> nat \<Rightarrow> real) \<Rightarrow> trade list \<Rightarrow> metrics" where
  "calculate_metrics rnd trades_df =
     (if length trades_df = 0 then
        \<lparr> total_trades = 0, winners = 0, losers = 0, win_rate = 0, total_pips = 0,
          avg_pips = 0, avg_win_pips = 0, avg_loss_pips = 0, profit_factor = 0,
          avg_bars_in_trade = 0 \<rparr>
      else
        (let n = length trades_df;
             ws = winners_of trades_df;
             ls = losers_of trades_df;
             wr = (if n > 0 then (real (length ws) / real n) * 100 else 0);
             tp = series_sum (map pips trades_df);
             ap = series_mean (map pips trades_df);
             gp = gross_profit trades_df;
             gl = gross_loss trades_df;
             pf = (if gl > 0 then gp / gl else 0)
         in \<lparr> total_trades = n,
              winners = length ws,
              losers = length ls,
              win_rate = rnd wr 2,
              total_pips = rnd tp 2,
              avg_pips = rnd ap 2,
              avg_win_pips = (if length ws > 0 then rnd (series_mean (map pips ws)) 2 else 0),
              avg_loss_pips = (if length ls > 0 then rnd (series_mean (map pips ls)) 2 else 0),
              profit_factor = rnd pf 2,
              avg_bars_in_trade =
                (if length trades_df > 0
                 then rnd (series_mean (map (\<lambda>t. real (bars_in_trade t)) trades_df)) 1
                 else 0) \<rparr>))"

section \<open>london-imbalance strategy: LondonImbalanceStrategy\<close>

text \<open>The attributes set by the constructor; the numeric parameters are Python numbers.\<close>

record strategy =
  volume_multiplier :: real
  min_wick_pips :: real
  min_body_pips :: real
  ema_length :: real
  stop_loss_pips :: real
  tp1_pips :: real
  tp2_pips :: real

text \<open>\<open>self.pip_value = 0.0001\<close>: set by the constructor, not a parameter.\<close>

definition pip_value :: real where
  "pip_value = 0.0001"

text \<open>
  The constructor (lines 16-43) stores its arguments; it has no \<open>raise\<close>, so the result is
  always \<open>Inr\<close>.
\<close>

definition LondonImbalanceStrategy_init ::
    "real \<Rightarrow> real \<Rightarrow> real \<Rightarrow> real \<Rightarrow> real \<Rightarrow> real \<Rightarrow> real \<Rightarrow> py_error + strategy" where
  "LondonImbalanceStrategy_init vm mw mb el sl t1 t2 =
     Inr \<lparr> volume_multiplier = vm, min_wick_pips = mw, min_body_pips = mb, ema_length = el,
           stop_loss_pips = sl, tp1_pips = t1, tp2_pips = t2 \<rparr>"

text \<open>The constructor's default arguments.\<close>

definition default_strategy :: strategy where
  "default_strategy =
     \<lparr> volume_multiplier = 1.5, min_wick_pips = 8, min_body_pips = 5, ema_length = 20,
       stop_loss_pips = 15, tp1_pips = 20, tp2_pips = 30 \<rparr>"

definition pips_to_price :: "real \<Rightarrow> real" where
  "pips_to_price p = p * pip_value"

definition price_to_pips :: "real \<Rightarrow> real" where
  "price_to_pips price = price / pip_value"

definition is_london_session :: "timestamp \<Rightarrow> bool" where
  "is_london_session ts = (8 \<le> hour ts \<and> hour ts < 11)"

text \<open>\<open>int(x)\<close> on a float truncates towards zero.\<close>

definition py_int :: "real \<Rightarrow> int" where
  "py_int x = (if x \<ge> 0 then \<lfloor>x\<rfloor> else \<lceil>x\<rceil>)"

definition is_near_round_number :: "real \<Rightarrow> int \<Rightarrow> bool" where
  "is_near_round_number price tolerance_pips =
     (let price_in_pips = py_int (price / pip_value);
          last_two_digits = price_in_pips mod 100
      in if \<bar>last_two_digits\<bar> \<le> tolerance_pips \<or> \<bar>last_two_digits - 100\<bar> \<le> tolerance_pips then True
         else if \<bar>last_two_digits - 50\<bar> \<le> tolerance_pips then True
         else False)"

subsection \<open>The method \<^verbatim>\<open>calculate_indicators\<close>\<close>

text \<open>A row of the dataframe after \<open>calculate_indicators\<close> has added its columns.\<close>

record ibar = bar +
  ema_20 :: real
  ema_slope :: "real option"
  volume_ma :: "real option"
  volume_spike :: bool
  body :: real
  upper_wick :: real
  lower_wick :: real
  body_pips :: real
  upper_wick_pips :: real
  lower_wick_pips :: real
  prev_day_high :: "real option"
  prev_day_low :: "real option"

text \<open>
  \<open>Series.ewm(span=span, adjust=False).mean()\<close>: pandas raises ValueError for a span below 1;
  otherwise \<open>y[0] = x[0]\<close> and \<open>y[t] = (1 - alpha) * y[t-1] + alpha * x[t]\<close> with
  \<open>alpha = 2 / (span + 1)\<close>.
\<close>

fun ewm_from :: "real \<Rightarrow> real \<Rightarrow> real list \<Rightarrow> real list" where
  "ewm_from alpha prev [] = []"
| "ewm_from alpha prev (x # xs) =
     (let y = (1 - alpha) * prev + alpha * x in y # ewm_from alpha y xs)"

definition ewm_mean :: "real \<Rightarrow> real list \<Rightarrow> py_error + real list" where
  "ewm_mean span_len xs =
     (if span_len < 1 then Inl ValueError
      else Inr (case xs of [] \<Rightarrow> [] | x # rest \<Rightarrow> x # ewm_from (2 / (span_len + 1)) x rest))"

text \<open>\<open>Series.diff()\<close>: NaN in the first row, then the difference to the row before.\<close>

definition diff :: "real list \<Rightarrow> real option list" where
  "diff xs = map (\<lambda>i. if i = 0 then None else Some (xs ! i - xs ! (i - 1))) [0..<length xs]"

text \<open>\<open>Series.rolling(window=w).mean()\<close>: NaN until the window is full.\<close>

definition rolling_mean :: "nat \<Rightarrow> real list \<Rightarrow> real option list" where
  "rolling_mean w xs =
     map (\<lambda>i. if i + 1 < w then None
              else Some (sum_list (take w (drop (i + 1 - w) xs)) / real w)) [0..<length xs]"

fun max_list :: "real list \<Rightarrow> real option" where
  "max_list [] = None"
| "max_list (x # xs) = Some (fold max xs x)"

fun min_list_opt :: "real list \<Rightarrow> real option" where
  "min_list_opt [] = None"
| "min_list_opt (x # xs) = Some (fold min xs x)"

text \<open>
  \<open>Series.shift(1).rolling(window=w, min_periods=1).max()\<close> (and \<open>.min()\<close>): in row \<open>i\<close> the
  extremum of the up to \<open>w\<close> rows before \<open>i\<close>, NaN in the first row.
\<close>

definition shift_rolling_max :: "nat \<Rightarrow> real list \<Rightarrow> real option list" where
  "shift_rolling_max w xs = map (\<lambda>i. max_list (drop (i - w) (take i xs))) [0..<length xs]"

definition shift_rolling_min :: "nat \<Rightarrow> real list \<Rightarrow> real option list" where
  "shift_rolling_min w xs = map (\<lambda>i. min_list_opt (drop (i - w) (take i xs))) [0..<length xs]"

text \<open>Row \<open>i\<close> of the result of \<open>calculate_indicators\<close>, given the \<open>ema_20\<close> column.\<close>

definition indicator_row :: "strategy \<Rightarrow> bar list \<Rightarrow> real list \<Rightarrow> nat \<Rightarrow> ibar" where
  "indicator_row cfg df ema i =
     (let b = df ! i;
          vma = rolling_mean 20 (map volume df) ! i;
          bd = \<bar>close b - open_price b\<bar>;
          uw = high b - max (open_price b) (close b);
          lw = min (open_price b) (close b) - low b
      in \<lparr> name = name b, open_price = open_price b, high = high b, low = low b,
           close = close b, volume = volume b,
           ema_20 = ema ! i,
           ema_slope = diff ema ! i,
           volume_ma = vma,
           volume_spike = (case vma of None \<Rightarrow> False
                           | Some m \<Rightarrow> volume b > m * volume_multiplier cfg),
           body = bd, upper_wick = uw, lower_wick = lw,
           body_pips = price_to_pips bd,
           upper_wick_pips = price_to_pips uw,
           lower_wick_pips = price_to_pips lw,
           prev_day_high = shift_rolling_max 288 (map high df) ! i,
           prev_day_low = shift_rolling_min 288 (map low df) ! i \<rparr>)"

definition calculate_indicators :: "strategy \<Rightarrow> bar list \<Rightarrow> py_error + ibar list" where
  "calculate_indicators cfg df =
     (case ewm_mean (ema_length cfg) (map close df) of
        Inl e \<Rightarrow> Inl e
      | Inr ema \<Rightarrow> Inr (map (indicator_row cfg df ema) [0..<length df]))"

subsection \<open>The method \<^verbatim>\<open>detect_signals\<close>\<close>

text \<open>The boolean locals of the loop body (lines 129-153), on the current and the previous row.\<close>

definition at_round_number :: "ibar \<Rightarrow> bool" where
  "at_round_number row = is_near_round_number (close row) 5"

definition at_prev_day_high :: "ibar \<Rightarrow> bool" where
  "at_prev_day_high row =
     (case prev_day_high row of None \<Rightarrow> False | Some h \<Rightarrow> \<bar>close row - h\<bar> < pips_to_price 5)"

definition at_prev_day_low :: "ibar \<Rightarrow> bool" where
  "at_prev_day_low row =
     (case prev_day_low row of None \<Rightarrow> False | Some l \<Rightarrow> \<bar>close row - l\<bar> < pips_to_price 5)"

definition at_key_level :: "ibar \<Rightarrow> bool" where
  "at_key_level row = (at_round_number row \<or> at_prev_day_high row \<or> at_prev_day_low row)"

definition bullish_rejection :: "strategy \<Rightarrow> ibar \<Rightarrow> bool" where
  "bullish_rejection cfg prev_row = (lower_wick_pips prev_row \<ge> min_wick_pips cfg)"

definition bearish_rejection :: "strategy \<Rightarrow> ibar \<Rightarrow> bool" where
  "bearish_rejection cfg prev_row = (upper_wick_pips prev_row \<ge> min_wick_pips cfg)"

definition strong_body :: "strategy \<Rightarrow> ibar \<Rightarrow> bool" where
  "strong_body cfg row = (body_pips row \<ge> min_body_pips cfg)"

definition bullish_confirm :: "ibar \<Rightarrow> ibar \<Rightarrow> bool" where
  "bullish_confirm row prev_row = (close row > open_price row \<and> close row > high prev_row)"

definition bearish_confirm :: "ibar \<Rightarrow> ibar \<Rightarrow> bool" where
  "bearish_confirm row prev_row = (close row < open_price row \<and> close row < low prev_row)"

definition ema_bullish :: "ibar \<Rightarrow> bool" where
  "ema_bullish row =
     ((case ema_slope row of None \<Rightarrow> False | Some sl \<Rightarrow> sl > 0) \<and> close row > ema_20 row)"

definition ema_bearish :: "ibar \<Rightarrow> bool" where
  "ema_bearish row =
     ((case ema_slope row of None \<Rightarrow> False | Some sl \<Rightarrow> sl < 0) \<and> close row < ema_20 row)"

text \<open>The two dictionaries appended at lines 157-166 and 170-179.\<close>

definition long_signal :: "strategy \<Rightarrow> ibar \<Rightarrow> nat \<Rightarrow> signal" where
  "long_signal cfg row i =
     \<lparr> timestamp = name row,
       direction = ''LONG'',
       entry_price = close row,
       stop_loss = close row - pips_to_price (stop_loss_pips cfg),
       tp1 = close row + pips_to_price (tp1_pips cfg),
       tp2 = close row + pips_to_price (tp2_pips cfg),
       level_type = (if at_round_number row then ''Round'' else ''Prev Day''),
       entry_index = int i \<rparr>"

definition short_signal :: "strategy \<Rightarrow> ibar \<Rightarrow> nat \<Rightarrow> signal" where
  "short_signal cfg row i =
     \<lparr> timestamp = name row,
       direction = ''SHORT'',
       entry_price = close row,
       stop_loss = close row + pips_to_price (stop_loss_pips cfg),
       tp1 = close row - pips_to_price (tp1_pips cfg),
       tp2 = close row - pips_to_price (tp2_pips cfg),
       level_type = (if at_round_number row then ''Round'' else ''Prev Day''),
       entry_index = int i \<rparr>"

text \<open>
  One pass of the loop body (lines 121-179) at position \<open>i\<close>: the list \<open>signals\<close> is returned
  unchanged where the source executes \<open>continue\<close> or neither branch appends.
\<close>

definition detect_step :: "strategy \<Rightarrow> ibar list \<Rightarrow> nat \<Rightarrow> signal list \<Rightarrow> signal list" where
  "detect_step cfg df i signals =
     (let row = df ! i; prev_row = df ! (i - 1)
      in if \<not> is_london_session (name row) then signals
         else if \<not> at_key_level row then signals
         else if \<not> volume_spike prev_row then signals
         else if bullish_rejection cfg prev_row \<and> bullish_confirm row prev_row
                 \<and> strong_body cfg row \<and> ema_bullish row
              then signals @ [long_signal cfg row i]
         else if bearish_rejection cfg prev_row \<and> bearish_confirm row prev_row
                 \<and> strong_body cfg row \<and> ema_bearish row
              then signals @ [short_signal cfg row i]
         else signals)"

fun detect_loop :: "strategy \<Rightarrow> ibar list \<Rightarrow> nat list \<Rightarrow> signal list \<Rightarrow> signal list" where
  "detect_loop cfg df [] signals = signals"
| "detect_loop cfg df (i # rest) signals = detect_loop cfg df rest (detect_step cfg df i signals)"

text \<open>
  \<open>detect_signals\<close>: the loop runs over \<open>range(100, len(df))\<close>, so \<open>df.iloc[i]\<close> and
  \<open>df.iloc[i-1]\<close> are always inside the frame.
\<close>

definition detect_signals :: "strategy \<Rightarrow> bar list \<Rightarrow> py_error + signal list" where
  "detect_signals cfg df =
     (case calculate_indicators cfg df of
        Inl e \<Rightarrow> Inl e
      | Inr idf \<Rightarrow> Inr (detect_loop cfg idf [100..<length idf] []))"

section \<open>Sample inputs\<close>

definition ts0 :: timestamp where
  "ts0 = \<lparr> day = 0, hour = 8, minute = 0 \<rparr>"

text \<open>A bar with no range at price \<open>c\<close>, and a bar that opens at its low and closes at its high.\<close>

definition quiet_bar :: "real \<Rightarrow> bar" where
  "quiet_bar c = \<lparr> name = ts0, open_price = c, high = c, low = c, close = c, volume = 1 \<rparr>"

definition wide_bar :: "real \<Rightarrow> real \<Rightarrow> bar" where
  "wide_bar l h = \<lparr> name = ts0, open_price = l, high = h, low = l, close = h, volume = 1 \<rparr>"

text \<open>A Long signal on bar 0: entry 1.0400, stop 1.0385, targets 1.0420 and 1.0430.\<close>

definition sample_long :: signal where
  "sample_long =
     \<lparr> timestamp = ts0, direction = ''LONG'', entry_price = 1.04, stop_loss = 1.0385,
       tp1 = 1.042, tp2 = 1.043, level_type = ''Round'', entry_index = 0 \<rparr>"

text \<open>
  62 bars that drift up by a tenth of a pip per bar: bar 0 carries the signal, bars 1 to 61
  follow it, and none of them reaches the stop or a target of \<open>sample_long\<close>.
\<close>

definition long_df :: "bar list" where
  "long_df = map (\<lambda>i. quiet_bar (1.04 + real i * 0.00001)) [0..<62]"

text \<open>Three bars: the second forward bar spans the stop and both targets of \<open>sample_long\<close>.\<close>

definition both_df :: "bar list" where
  "both_df = [quiet_bar 1.04, quiet_bar 1.0401, wide_bar 1.038 1.0435]"

text \<open>A dataframe of one bar: the signal bar of \<open>sample_long\<close> is also the last bar.\<close>

definition single_df :: "bar list" where
  "single_df = [quiet_bar 1.04]"

text \<open>A trade record with the given pips and win flag.\<close>

definition mk_trade :: "real \<Rightarrow> bool \<Rightarrow> trade" where
  "mk_trade p w =
     \<lparr> entry_time = ts0, t_direction = ''LONG'', t_entry_price = 1.04,
       exit_price = 1.04 + p * 0.0001, exit_reason = TIME_STOP, pips = p, win = w,
       bars_in_trade = 59, t_level_type = ''Round'' \<rparr>"

text \<open>
  A rounding function to run the aggregator on the samples: the exact real is scaled, rounded
  to the nearest integer with a tie going to the even neighbour, and scaled back. On the
  sample quotient 10 / 30 it returns 0.33, as \<open>round\<close> does on the float quotient.
\<close>

definition rint :: "real \<Rightarrow> int" where
  "rint x =
     (let f = \<lfloor>x\<rfloor>; d = x - of_int f
      in if d < 1 / 2 then f
         else if d > 1 / 2 then f + 1
         else if even f then f else f + 1)"

definition round_half_even :: "real \<Rightarrow> nat \<Rightarrow> real" where
  "round_half_even x ndigits = of_int (rint (x * 10 ^ ndigits)) / 10 ^ ndigits"

text \<open>One winner of 10 pips and one loser of 30 pips; two winners.\<close>

definition third_trades :: "trade list" where
  "third_trades = [mk_trade 10 True, mk_trade (-30) False]"


text \<open>
  101 bars on which the detector emits one Long signal at position 100: 99 flat bars at
  1.0380, a bar with a 10-pip lower wick and a volume spike, and a confirmation bar that
  closes at 1.0400, 15 pips above its open. All timestamps are in the 08:00 hour.
\<close>

definition rejection_bar :: bar where
  "rejection_bar =
     \<lparr> name = ts0, open_price = 1.038, high = 1.038, low = 1.037, close = 1.038, volume = 100 \<rparr>"

definition confirm_bar :: bar where
  "confirm_bar =
     \<lparr> name = ts0, open_price = 1.0385, high = 1.04, low = 1.0385, close = 1.04, volume = 1 \<rparr>"

definition signal_df :: "bar list" where
  "signal_df = quiet_bar 1.038 # replicate 98 (quiet_bar 1.038) @ [rejection_bar, confirm_bar]"

text \<open>The \<open>ema_20\<close> column of \<open>signal_df\<close> for span 20.\<close>

definition signal_ema :: "real list" where
  "signal_ema = 1.038 # replicate 98 1.038 @ [1.038, 10901 / 10500]"

text \<open>Constructor arguments with a volume multiplier of 0 and a stop distance of -15 pips.\<close>

definition bad_strategy :: strategy where
  "bad_strategy =
     \<lparr> volume_multiplier = 0, min_wick_pips = 8, min_body_pips = 5, ema_length = 20,
       stop_loss_pips = -15, tp1_pips = 20, tp2_pips = 30 \<rparr>"

section \<open>Properties of the trade simulator\<close>

lemma length_py_range: "length (py_range a b) = nat (b - a)"
  by (simp add: py_range_def)

lemma length_forward_range: "length (forward_range df entry_idx) \<le> 59"
  by (simp add: forward_range_def length_py_range max_bars_def)

lemma find_exit_bars:
  "find_exit df d sl t1 t2 idxs n = Inr (found, m) \<Longrightarrow> m \<le> n + length idxs"
proof (induction idxs arbitrary: n)
  case Nil
  then show ?case by simp
next
  case (Cons i rest)
  then show ?case
    by (fastforce split: sum.splits option.splits)
qed

lemma execute_trade_bars:
  assumes "execute_trade df sg = Inr t"
  shows "bars_in_trade t \<le> 59"
proof -
  from assms obtain found m where
    fe: "find_exit df (direction sg) (stop_loss sg) (tp1 sg) (tp2 sg)
           (forward_range df (entry_index sg)) 0 = Inr (found, m)"
    and bt: "bars_in_trade t = m"
    by (auto simp: execute_trade_def Let_def split: sum.splits option.splits prod.splits)
  from find_exit_bars [OF fe] length_forward_range [of df "entry_index sg"] bt
  show ?thesis by simp
qed

lemma execute_trades_loop_all:
  assumes step: "\<And>sg t. execute_trade df sg = Inr t \<Longrightarrow> P t"
  shows "execute_trades_loop df signals acc = Inr trades \<Longrightarrow>
         \<forall>t \<in> set acc. P t \<Longrightarrow> \<forall>t \<in> set trades. P t"
proof (induction signals arbitrary: acc)
  case Nil
  then show ?case by simp
next
  case (Cons sg signals)
  from Cons.prems(1) obtain t where
    et: "execute_trade df sg = Inr t"
    and rest: "execute_trades_loop df signals (acc @ [t]) = Inr trades"
    by (auto split: sum.splits)
  have "\<forall>u \<in> set (acc @ [t]). P u"
    using Cons.prems(2) step [OF et] by auto
  from Cons.IH [OF rest this] show ?case .
qed

lemma execute_trades_all:
  assumes "\<And>sg t. execute_trade df sg = Inr t \<Longrightarrow> P t"
    and "execute_trades df signals = Inr trades" and "t \<in> set trades"
  shows "P t"
  using execute_trades_loop_all [of df P signals "[]" trades] assms
  by (simp add: execute_trades_def)

lemma nth_forward_range:
  "j < length (forward_range df entry_idx) \<Longrightarrow> forward_range df entry_idx ! j = entry_idx + 1 + int j"
  unfolding forward_range_def py_range_def
  by (subst nth_upto) (auto simp: min_def split: if_splits)

lemma length_forward_range_eq:
  "length (forward_range df entry_idx) = nat (min (entry_idx + 60) (int (length df)) - (entry_idx + 1))"
  by (simp add: forward_range_def length_py_range max_bars_def)

lemma iloc_nat: "i < length df \<Longrightarrow> iloc df (int i) = Inr (df ! i)"
  by (simp add: iloc_def)

lemma find_exit_first_trigger:
  assumes "k < length idxs"
    and "\<forall>j<k. \<exists>b. iloc df (idxs ! j) = Inr b \<and> check_exit d b sl t1 t2 = None"
    and "iloc df (idxs ! k) = Inr b"
    and "check_exit d b sl t1 t2 = Some ex"
  shows "find_exit df d sl t1 t2 idxs n = Inr (Some ex, n + k + 1)"
  using assms
proof (induction idxs arbitrary: k n)
  case Nil
  then show ?case by simp
next
  case (Cons i rest)
  show ?case
  proof (cases k)
    case 0
    with Cons.prems show ?thesis by simp
  next
    case (Suc k')
    from Cons.prems(2) Suc obtain b0 where
      b0: "iloc df i = Inr b0" "check_exit d b0 sl t1 t2 = None"
      by fastforce
    have earlier: "\<forall>j<k'. \<exists>b. iloc df (rest ! j) = Inr b \<and> check_exit d b sl t1 t2 = None"
    proof (intro allI impI)
      fix j assume "j < k'"
      then have "Suc j < k" using Suc by simp
      with Cons.prems(2) show "\<exists>b. iloc df (rest ! j) = Inr b \<and> check_exit d b sl t1 t2 = None"
        by fastforce
    qed
    have "find_exit df d sl t1 t2 rest (n + 1) = Inr (Some ex, n + 1 + k' + 1)"
      using Cons.IH [of k' "n + 1"] Cons.prems Suc earlier by simp
    with b0 Suc show ?thesis by simp
  qed
qed

lemma find_exit_no_trigger:
  assumes "\<forall>j<length idxs. \<exists>b. iloc df (idxs ! j) = Inr b \<and> check_exit d b sl t1 t2 = None"
  shows "find_exit df d sl t1 t2 idxs n = Inr (None, n + length idxs)"
  using assms
proof (induction idxs arbitrary: n)
  case Nil
  then show ?case by simp
next
  case (Cons i rest)
  from Cons.prems obtain b0 where
    b0: "iloc df i = Inr b0" "check_exit d b0 sl t1 t2 = None"
    by fastforce
  have "\<forall>j<length rest. \<exists>b. iloc df (rest ! j) = Inr b \<and> check_exit d b sl t1 t2 = None"
  proof (intro allI impI)
    fix j assume "j < length rest"
    then have "Suc j < length (i # rest)" by simp
    with Cons.prems show "\<exists>b. iloc df (rest ! j) = Inr b \<and> check_exit d b sl t1 t2 = None"
      by fastforce
  qed
  from Cons.IH [OF this, of "n + 1"] b0 show ?case by simp
qed

text \<open>
  A trade whose first \<open>k\<close> forward bars leave it open and whose next forward bar makes
  \<open>check_exit\<close> fire leaves at that bar, with that price and reason.
\<close>

lemma execute_trade_exit_at:
  assumes idx: "0 \<le> entry_index sg" "e = nat (entry_index sg)" "k < 59" "e + 1 + k < length df"
    and earlier: "\<forall>j<k. check_exit (direction sg) (df ! (e + 1 + j)) (stop_loss sg) (tp1 sg) (tp2 sg) = None"
    and fires: "check_exit (direction sg) (df ! (e + 1 + k)) (stop_loss sg) (tp1 sg) (tp2 sg) = Some (xp, xr)"
  shows "\<exists>t. execute_trade df sg = Inr t \<and> exit_price t = xp \<and> exit_reason t = xr
             \<and> bars_in_trade t = k + 1"
proof -
  let ?idxs = "forward_range df (entry_index sg)"
  have len: "k < length ?idxs"
    using idx by (simp add: length_forward_range_eq)
  have nth: "?idxs ! j = int (e + 1 + j)" if "j \<le> k" for j
    using that len idx nth_forward_range [of j df "entry_index sg"] by simp
  have a: "\<forall>j<k. \<exists>b. iloc df (?idxs ! j) = Inr b
              \<and> check_exit (direction sg) b (stop_loss sg) (tp1 sg) (tp2 sg) = None"
  proof (intro allI impI)
    fix j assume jk: "j < k"
    then have "e + 1 + j < length df" using idx by simp
    then have "iloc df (?idxs ! j) = Inr (df ! (e + 1 + j))"
      using nth [of j] jk iloc_nat [of "e + 1 + j" df] by simp
    with earlier jk
    show "\<exists>b. iloc df (?idxs ! j) = Inr b
              \<and> check_exit (direction sg) b (stop_loss sg) (tp1 sg) (tp2 sg) = None"
      by simp
  qed
  have b: "iloc df (?idxs ! k) = Inr (df ! (e + 1 + k))"
    using nth [of k] idx iloc_nat [of "e + 1 + k" df] by simp
  have "find_exit df (direction sg) (stop_loss sg) (tp1 sg) (tp2 sg) ?idxs 0
          = Inr (Some (xp, xr), 0 + k + 1)"
    by (rule find_exit_first_trigger [OF len a b fires])
  then show ?thesis
    by (simp add: execute_trade_def Let_def)
qed

lemma execute_trade_time_stop:
  assumes idx: "0 \<le> entry_index sg" "e = nat (entry_index sg)" "e + 60 \<le> length df"
    and quiet: "\<forall>j<59. check_exit (direction sg) (df ! (e + 1 + j)) (stop_loss sg) (tp1 sg) (tp2 sg) = None"
  shows "execute_trade df sg =
           Inr \<lparr> entry_time = timestamp sg,
                 t_direction = direction sg,
                 t_entry_price = entry_price sg,
                 exit_price = close (df ! (e + 59)),
                 exit_reason = TIME_STOP,
                 pips = (if direction sg = ''LONG''
                         then (close (df ! (e + 59)) - entry_price sg) / 0.0001
                         else (entry_price sg - close (df ! (e + 59))) / 0.0001),
                 win = ((if direction sg = ''LONG''
                         then (close (df ! (e + 59)) - entry_price sg) / 0.0001
                         else (entry_price sg - close (df ! (e + 59))) / 0.0001) > 0),
                 bars_in_trade = 59,
                 t_level_type = level_type sg \<rparr>"
proof -
  let ?idxs = "forward_range df (entry_index sg)"
  have len: "length ?idxs = 59"
    using idx by (simp add: length_forward_range_eq)
  have a: "\<forall>j<length ?idxs. \<exists>b. iloc df (?idxs ! j) = Inr b
              \<and> check_exit (direction sg) b (stop_loss sg) (tp1 sg) (tp2 sg) = None"
  proof (intro allI impI)
    fix j assume jl: "j < length ?idxs"
    then have j59: "j < 59" using len by simp
    have "?idxs ! j = int (e + 1 + j)"
      using nth_forward_range [OF jl] idx by simp
    moreover have "e + 1 + j < length df" using j59 idx by simp
    ultimately have "iloc df (?idxs ! j) = Inr (df ! (e + 1 + j))"
      using iloc_nat [of "e + 1 + j" df] by simp
    with quiet j59
    show "\<exists>b. iloc df (?idxs ! j) = Inr b
              \<and> check_exit (direction sg) b (stop_loss sg) (tp1 sg) (tp2 sg) = None"
      by simp
  qed
  have fe: "find_exit df (direction sg) (stop_loss sg) (tp1 sg) (tp2 sg) ?idxs 0 = Inr (None, 59)"
    using find_exit_no_trigger [OF a, of 0] len by simp
  have "min (entry_index sg + max_bars - 1) (int (length df) - 1) = int (e + 59)"
    using idx by (simp add: max_bars_def)
  moreover have "iloc df (int (e + 59)) = Inr (df ! (e + 59))"
    using idx iloc_nat [of "e + 59" df] by simp
  ultimately show ?thesis
    using fe by (simp add: execute_trade_def Let_def)
qed

lemma long_df_nth: "n < 62 \<Longrightarrow> long_df ! n = quiet_bar (1.04 + real n * 0.00001)"
  by (simp add: long_df_def)

lemma check_exit_quiet_long:
  "sl < c \<Longrightarrow> c < t1 \<Longrightarrow> c < t2 \<Longrightarrow> check_exit ''LONG'' (quiet_bar c) sl t1 t2 = None"
  by (simp add: check_exit_def quiet_bar_def)

lemma long_df_quiet:
  "\<forall>j<59. check_exit (direction sample_long) (long_df ! (0 + 1 + j)) (stop_loss sample_long)
       (tp1 sample_long) (tp2 sample_long) = None"
proof (intro allI impI)
  fix j :: nat assume j: "j < 59"
  define x where "x = real (1 + j) * 0.00001"
  define c where "c = 1.04 + x"
  have bar: "long_df ! (0 + 1 + j) = quiet_bar c"
    using j long_df_nth [of "1 + j"] by (simp add: c_def x_def)
  have "0 \<le> x" by (simp add: x_def)
  moreover have "x \<le> 0.0006"
    using j by (simp add: x_def)
  ultimately have "1.0385 < c" "c < 1.042" "c < 1.043"
    by (simp_all add: c_def)
  then show "check_exit (direction sample_long) (long_df ! (0 + 1 + j)) (stop_loss sample_long)
       (tp1 sample_long) (tp2 sample_long) = None"
    unfolding bar by (simp add: sample_long_def check_exit_quiet_long)
qed

lemma both_df_trade:
  "execute_trades both_df [sample_long] =
     Inr [\<lparr> entry_time = ts0, t_direction = ''LONG'', t_entry_price = 1.04, exit_price = 1.0385,
            exit_reason = STOP_LOSS, pips = -15, win = False, bars_in_trade = 2,
            t_level_type = ''Round'' \<rparr>]"
  by (simp add: execute_trades_def execute_trade_def both_df_def sample_long_def forward_range_def
      py_range_def max_bars_def iloc_def quiet_bar_def wide_bar_def check_exit_def Let_def
      upto.simps)

text \<open>
  C1. At every forward bar that a trade reaches still open (the \<open>k\<close> forward bars before it
  triggered nothing), the exit conditions are tried in the order stop-loss, target 2,
  target 1. Long: a bar with \<open>low \<le> stop\<close> closes the trade at the stop price with reason
  \<open>STOP_LOSS\<close>, whatever its high; otherwise a bar with \<open>high \<ge> tp2\<close> closes it at \<open>tp2\<close>
  with reason \<open>TP2\<close> (also when \<open>high \<ge> tp1\<close>); otherwise a bar with \<open>high \<ge> tp1\<close> closes
  it at \<open>tp1\<close>. Short: the same with high and low exchanged.
\<close>

theorem exit_priority:
  assumes "0 \<le> entry_index sg" and "e = nat (entry_index sg)"
    and "k < 59" and "e + 1 + k < length df"
    and "\<forall>j<k. check_exit (direction sg) (df ! (e + 1 + j)) (stop_loss sg) (tp1 sg) (tp2 sg) = None"
    and "b = df ! (e + 1 + k)"
  shows "(direction sg = ''LONG'' \<longrightarrow>
            (low b \<le> stop_loss sg \<longrightarrow>
               (\<exists>t. execute_trade df sg = Inr t \<and> exit_reason t = STOP_LOSS
                    \<and> exit_price t = stop_loss sg \<and> bars_in_trade t = k + 1)) \<and>
            (stop_loss sg < low b \<and> tp2 sg \<le> high b \<longrightarrow>
               (\<exists>t. execute_trade df sg = Inr t \<and> exit_reason t = TP2
                    \<and> exit_price t = tp2 sg \<and> bars_in_trade t = k + 1)) \<and>
            (stop_loss sg < low b \<and> high b < tp2 sg \<and> tp1 sg \<le> high b \<longrightarrow>
               (\<exists>t. execute_trade df sg = Inr t \<and> exit_reason t = TP1
                    \<and> exit_price t = tp1 sg \<and> bars_in_trade t = k + 1))) \<and>
         (direction sg = ''SHORT'' \<longrightarrow>
            (stop_loss sg \<le> high b \<longrightarrow>
               (\<exists>t. execute_trade df sg = Inr t \<and> exit_reason t = STOP_LOSS
                    \<and> exit_price t = stop_loss sg \<and> bars_in_trade t = k + 1)) \<and>
            (high b < stop_loss sg \<and> low b \<le> tp2 sg \<longrightarrow>
               (\<exists>t. execute_trade df sg = Inr t \<and> exit_reason t = TP2
                    \<and> exit_price t = tp2 sg \<and> bars_in_trade t = k + 1)) \<and>
            (high b < stop_loss sg \<and> tp2 sg < low b \<and> low b \<le> tp1 sg \<longrightarrow>
               (\<exists>t. execute_trade df sg = Inr t \<and> exit_reason t = TP1
                    \<and> exit_price t = tp1 sg \<and> bars_in_trade t = k + 1)))"
proof -
  note at = execute_trade_exit_at [OF assms(1-5)]
  let ?chk = "check_exit (direction sg) (df ! (e + 1 + k)) (stop_loss sg) (tp1 sg) (tp2 sg)"
  have l1: "direction sg = ''LONG'' \<Longrightarrow> low b \<le> stop_loss sg \<Longrightarrow>
      ?chk = Some (stop_loss sg, STOP_LOSS)"
    using assms(6) by (simp add: check_exit_def)
  have l2: "direction sg = ''LONG'' \<Longrightarrow> stop_loss sg < low b \<Longrightarrow> tp2 sg \<le> high b \<Longrightarrow>
      ?chk = Some (tp2 sg, TP2)"
    using assms(6) by (simp add: check_exit_def)
  have l3: "direction sg = ''LONG'' \<Longrightarrow> stop_loss sg < low b \<Longrightarrow> high b < tp2 sg \<Longrightarrow>
      tp1 sg \<le> high b \<Longrightarrow> ?chk = Some (tp1 sg, TP1)"
    using assms(6) by (simp add: check_exit_def)
  have s1: "direction sg = ''SHORT'' \<Longrightarrow> stop_loss sg \<le> high b \<Longrightarrow>
      ?chk = Some (stop_loss sg, STOP_LOSS)"
    using assms(6) by (simp add: check_exit_def)
  have s2: "direction sg = ''SHORT'' \<Longrightarrow> high b < stop_loss sg \<Longrightarrow> low b \<le> tp2 sg \<Longrightarrow>
      ?chk = Some (tp2 sg, TP2)"
    using assms(6) by (simp add: check_exit_def)
  have s3: "direction sg = ''SHORT'' \<Longrightarrow> high b < stop_loss sg \<Longrightarrow> tp2 sg < low b \<Longrightarrow>
      low b \<le> tp1 sg \<Longrightarrow> ?chk = Some (tp1 sg, TP1)"
    using assms(6) by (simp add: check_exit_def)
  show ?thesis
    using at [OF l1] at [OF l2] at [OF l3] at [OF s1] at [OF s2] at [OF s3] by blast
qed

theorem exit_priority_witness:
  "low (both_df ! 2) \<le> stop_loss sample_long \<and> tp2 sample_long \<le> high (both_df ! 2)
   \<and> (\<exists>t. execute_trade both_df sample_long = Inr t \<and> exit_reason t = STOP_LOSS
          \<and> exit_price t = 1.0385 \<and> bars_in_trade t = 2)"
proof -
  have h: "\<forall>j<1. check_exit (direction sample_long) (both_df ! (0 + 1 + j)) (stop_loss sample_long)
      (tp1 sample_long) (tp2 sample_long) = None"
    by (simp add: check_exit_def both_df_def sample_long_def quiet_bar_def)
  have "0 \<le> entry_index sample_long" "0 = nat (entry_index sample_long)" "(1::nat) < 59"
       "0 + 1 + 1 < length both_df"
    by (simp_all add: sample_long_def both_df_def)
  from exit_priority [OF this h refl]
  show ?thesis
    by (simp add: sample_long_def both_df_def wide_bar_def numeral_2_eq_2)
qed

text \<open>
  C2. The claim asks for a time stop at the 60th forward bar with \<open>bars_in_trade = 60\<close>. On
  \<open>long_df\<close>, where 61 bars follow the signal bar and none triggers an exit, the simulator
  visits the positions 1 to 59 only: the trade is closed at the close of bar 59, the 59th
  forward bar, with \<open>bars_in_trade = 59\<close>; the close of bar 60 is a different price.
\<close>

theorem time_stop_off_by_one:
  "execute_trades long_df [sample_long] =
     Inr [\<lparr> entry_time = ts0, t_direction = ''LONG'', t_entry_price = 1.04,
            exit_price = close (long_df ! 59), exit_reason = TIME_STOP, pips = 5.9, win = True,
            bars_in_trade = 59, t_level_type = ''Round'' \<rparr>]
   \<and> close (long_df ! 59) = 1.04059 \<and> close (long_df ! 60) = 1.0406 \<and> length long_df = 62"
proof -
  have "0 \<le> entry_index sample_long" "0 = nat (entry_index sample_long)" "0 + 60 \<le> length long_df"
    by (simp_all add: sample_long_def long_df_def)
  from execute_trade_time_stop [OF this long_df_quiet]
  show ?thesis
    by (simp add: execute_trades_def long_df_nth quiet_bar_def) (simp add: sample_long_def long_df_def)
qed

text \<open>
  C3. Every trade returned by \<open>execute_trades\<close>, for every dataframe and every list of
  signals, has \<open>bars_in_trade \<le> max_bars\<close> (60).
\<close>

theorem horizon_bound:
  assumes "execute_trades df signals = Inr trades" and "t \<in> set trades"
  shows "int (bars_in_trade t) \<le> max_bars"
proof -
  have "bars_in_trade t \<le> 59"
    by (rule execute_trades_all [where P = "\<lambda>t. bars_in_trade t \<le> 59", OF _ assms])
       (rule execute_trade_bars)
  then show ?thesis by (simp add: max_bars_def)
qed

theorem horizon_bound_witness:
  "execute_trades both_df [sample_long] =
     Inr [\<lparr> entry_time = ts0, t_direction = ''LONG'', t_entry_price = 1.04, exit_price = 1.0385,
            exit_reason = STOP_LOSS, pips = -15, win = False, bars_in_trade = 2,
            t_level_type = ''Round'' \<rparr>]
   \<and> int (bars_in_trade \<lparr> entry_time = ts0, t_direction = ''LONG'', t_entry_price = 1.04,
            exit_price = 1.0385, exit_reason = STOP_LOSS, pips = -15, win = False,
            bars_in_trade = 2, t_level_type = ''Round'' \<rparr>) \<le> max_bars"
  using horizon_bound [OF both_df_trade,
      of "\<lparr> entry_time = ts0, t_direction = ''LONG'', t_entry_price = 1.04,
            exit_price = 1.0385, exit_reason = STOP_LOSS, pips = -15, win = False,
            bars_in_trade = 2, t_level_type = ''Round'' \<rparr>"] both_df_trade
  by simp

section \<open>Properties of the metrics aggregator\<close>






lemma winners_losers_total:
  "winners (calculate_metrics rnd ts) + losers (calculate_metrics rnd ts)
     = total_trades (calculate_metrics rnd ts)"
  by (simp add: calculate_metrics_def Let_def winners_of_def losers_of_def sum_length_filter_compl)

lemma total_trades_length: "total_trades (calculate_metrics rnd ts) = length ts"
  by (simp add: calculate_metrics_def Let_def)

lemma execute_trade_win: "execute_trade df sg = Inr t \<Longrightarrow> win t = (pips t > 0)"
  by (auto simp: execute_trade_def Let_def split: sum.splits option.splits prod.splits)

lemma single_df_trade:
  "execute_trades single_df [sample_long] =
     Inr [\<lparr> entry_time = ts0, t_direction = ''LONG'', t_entry_price = 1.04, exit_price = 1.04,
            exit_reason = TIME_STOP, pips = 0, win = False, bars_in_trade = 0,
            t_level_type = ''Round'' \<rparr>]"
  by (simp add: execute_trades_def execute_trade_def single_df_def sample_long_def forward_range_def
      py_range_def max_bars_def iloc_def quiet_bar_def Let_def upto.simps)




text \<open>
  C5. Aggregating the empty trade set returns \<open>total_trades = 0\<close> and 0 in every other field,
  the ratio and average fields included; no division and no rounding is evaluated.
\<close>

theorem metrics_empty:
  "calculate_metrics rnd [] =
     \<lparr> total_trades = 0, winners = 0, losers = 0, win_rate = 0, total_pips = 0, avg_pips = 0,
       avg_win_pips = 0, avg_loss_pips = 0, profit_factor = 0, avg_bars_in_trade = 0 \<rparr>"
  by (simp add: calculate_metrics_def)

text \<open>
  C10. Every trade produced by the simulator has \<open>win\<close> true exactly when its pips are
  strictly positive, so a trade with zero pips is a loser; and for every trade set the
  aggregator's \<open>winners\<close> and \<open>losers\<close> add up to \<open>total_trades\<close>.
\<close>

theorem win_iff_positive_pips:
  assumes "execute_trades df signals = Inr trades"
  shows "(\<forall>t \<in> set trades. win t = (pips t > 0) \<and> (pips t = 0 \<longrightarrow> \<not> win t)) \<and>
         winners (calculate_metrics rnd ts) + losers (calculate_metrics rnd ts)
           = total_trades (calculate_metrics rnd ts)"
proof -
  have "win t = (pips t > 0)" if "t \<in> set trades" for t
    by (rule execute_trades_all [where P = "\<lambda>t. win t = (pips t > 0)", OF _ assms that])
       (rule execute_trade_win)
  then show ?thesis
    using winners_losers_total [of rnd ts] by auto
qed

theorem win_iff_positive_pips_witness:
  "execute_trades single_df [sample_long] =
     Inr [\<lparr> entry_time = ts0, t_direction = ''LONG'', t_entry_price = 1.04, exit_price = 1.04,
            exit_reason = TIME_STOP, pips = 0, win = False, bars_in_trade = 0,
            t_level_type = ''Round'' \<rparr>]
   \<and> winners (calculate_metrics round_half_even third_trades)
       + losers (calculate_metrics round_half_even third_trades) = 2
   \<and> total_trades (calculate_metrics round_half_even third_trades) = 2"
proof -
  have "total_trades (calculate_metrics round_half_even third_trades) = 2"
    by (simp add: total_trades_length third_trades_def)
  with win_iff_positive_pips [OF single_df_trade, of round_half_even third_trades] single_df_trade
  show ?thesis by simp
qed

section \<open>Properties of the signal detector\<close>

lemma indicator_row_fields:
  "name (indicator_row cfg df ema i) = name (df ! i)"
  "open_price (indicator_row cfg df ema i) = open_price (df ! i)"
  "high (indicator_row cfg df ema i) = high (df ! i)"
  "low (indicator_row cfg df ema i) = low (df ! i)"
  "close (indicator_row cfg df ema i) = close (df ! i)"
  "ema_20 (indicator_row cfg df ema i) = ema ! i"
  "ema_slope (indicator_row cfg df ema i) = diff ema ! i"
  "volume_spike (indicator_row cfg df ema i) =
     (case rolling_mean 20 (map volume df) ! i of None \<Rightarrow> False
      | Some m \<Rightarrow> volume (df ! i) > m * volume_multiplier cfg)"
  "body_pips (indicator_row cfg df ema i) = price_to_pips \<bar>close (df ! i) - open_price (df ! i)\<bar>"
  "upper_wick_pips (indicator_row cfg df ema i)
     = price_to_pips (high (df ! i) - max (open_price (df ! i)) (close (df ! i)))"
  "lower_wick_pips (indicator_row cfg df ema i)
     = price_to_pips (min (open_price (df ! i)) (close (df ! i)) - low (df ! i))"
  by (simp_all add: indicator_row_def Let_def)

lemma calculate_indicators_rows:
  assumes "calculate_indicators cfg df = Inr idf"
  shows "length idf = length df"
    and "\<exists>ema. ewm_mean (ema_length cfg) (map close df) = Inr ema
           \<and> (\<forall>i<length df. idf ! i = indicator_row cfg df ema i)"
  using assms by (auto simp: calculate_indicators_def split: sum.splits)

lemma calculate_indicators_close:
  assumes "calculate_indicators cfg df = Inr idf" and "i < length df"
  shows "close (idf ! i) = close (df ! i)" and "name (idf ! i) = name (df ! i)"
  using calculate_indicators_rows(2) [OF assms(1)] assms(2)
  by (auto simp: indicator_row_fields)

lemma detect_step_append:
  "detect_step cfg df i signals = signals @ detect_step cfg df i []"
  by (auto simp: detect_step_def Let_def)

lemma detect_step_cases:
  "detect_step cfg df i [] = [] \<or>
   detect_step cfg df i [] = [long_signal cfg (df ! i) i] \<or>
   detect_step cfg df i [] = [short_signal cfg (df ! i) i]"
  by (auto simp: detect_step_def Let_def)

lemma detect_step_long:
  assumes "is_london_session (name (df ! i))" and "at_key_level (df ! i)"
    and "volume_spike (df ! (i - 1))"
    and "bullish_rejection cfg (df ! (i - 1))" and "bullish_confirm (df ! i) (df ! (i - 1))"
    and "strong_body cfg (df ! i)" and "ema_bullish (df ! i)"
  shows "detect_step cfg df i [] = [long_signal cfg (df ! i) i]"
  using assms by (simp add: detect_step_def Let_def)

lemma detect_loop_concat:
  "detect_loop cfg df idxs signals = signals @ concat (map (\<lambda>i. detect_step cfg df i []) idxs)"
proof (induction idxs arbitrary: signals)
  case Nil
  then show ?case by simp
next
  case (Cons i rest)
  show ?case
    using Cons.IH [of "detect_step cfg df i signals"] detect_step_append [of cfg df i signals]
    by simp
qed

lemma detect_step_index:
  "s \<in> set (detect_step cfg df i []) \<Longrightarrow> entry_index s = int i"
  using detect_step_cases [of cfg df i]
  by (auto simp: long_signal_def short_signal_def)

lemma filter_step_other:
  "i \<noteq> j \<Longrightarrow> filter (\<lambda>s. entry_index s = int j) (detect_step cfg df i []) = []"
  by (auto simp: filter_empty_conv dest: detect_step_index)

lemma filter_step_same:
  "filter (\<lambda>s. entry_index s = int i) (detect_step cfg df i []) = detect_step cfg df i []"
  by (auto simp: filter_id_conv dest: detect_step_index)

lemma filter_concat_steps:
  "distinct idxs \<Longrightarrow>
   filter (\<lambda>s. entry_index s = int j) (concat (map (\<lambda>i. detect_step cfg df i []) idxs))
     = (if j \<in> set idxs then detect_step cfg df j [] else [])"
proof (induction idxs)
  case Nil
  then show ?case by simp
next
  case (Cons i rest)
  show ?case
  proof (cases "i = j")
    case True
    with Cons show ?thesis by (simp add: filter_step_same)
  next
    case False
    with Cons show ?thesis by (simp add: filter_step_other)
  qed
qed

lemma detect_signals_filter:
  assumes "calculate_indicators cfg df = Inr idf" and "detect_signals cfg df = Inr sigs"
  shows "filter (\<lambda>s. entry_index s = int j) sigs
           = (if 100 \<le> j \<and> j < length df then detect_step cfg idf j [] else [])"
proof -
  have "sigs = concat (map (\<lambda>i. detect_step cfg idf i []) [100..<length idf])"
    using assms detect_loop_concat [of cfg idf "[100..<length idf]" "[]"]
    by (simp add: detect_signals_def)
  moreover have "length idf = length df"
    by (rule calculate_indicators_rows(1) [OF assms(1)])
  ultimately show ?thesis
    using filter_concat_steps [of "[100..<length df]" j cfg idf] by simp
qed

lemma detect_signals_member:
  assumes "calculate_indicators cfg df = Inr idf" and "detect_signals cfg df = Inr sigs"
    and "s \<in> set sigs"
  shows "\<exists>i. 100 \<le> i \<and> i < length df \<and>
           (s = long_signal cfg (idf ! i) i \<or> s = short_signal cfg (idf ! i) i)"
proof -
  have "sigs = concat (map (\<lambda>i. detect_step cfg idf i []) [100..<length idf])"
    using assms detect_loop_concat [of cfg idf "[100..<length idf]" "[]"]
    by (simp add: detect_signals_def)
  moreover have "length idf = length df"
    by (rule calculate_indicators_rows(1) [OF assms(1)])
  ultimately obtain i where i: "100 \<le> i" "i < length df" "s \<in> set (detect_step cfg idf i [])"
    using assms(3) by auto
  with detect_step_cases [of cfg idf i] show ?thesis by auto
qed


lemma ewm_from_const:
  "ewm_from alpha c (replicate n c @ xs) = replicate n c @ ewm_from alpha c xs"
proof (induction n)
  case 0
  then show ?case by simp
next
  case (Suc n)
  have "(1 - alpha) * c + alpha * c = c" by (simp add: algebra_simps)
  with Suc show ?case by (simp add: Let_def)
qed

lemma signal_df_length: "length signal_df = 101"
  by (simp add: signal_df_def)

lemma signal_df_nth:
  "signal_df ! 99 = rejection_bar" "signal_df ! 100 = confirm_bar"
  by (simp_all add: signal_df_def nth_append)

lemma signal_df_ema:
  "ewm_mean (ema_length default_strategy) (map close signal_df) = Inr signal_ema"
proof -
  have "map close signal_df = 1.038 # replicate 98 1.038 @ [1.038, 1.04]"
    by (simp add: signal_df_def quiet_bar_def rejection_bar_def confirm_bar_def)
  moreover have "ewm_from (2 / 21) 1.038 (replicate 98 1.038 @ [1.038, 1.04])
      = replicate 98 1.038 @ [1.038, 10901 / 10500]"
    by (simp add: ewm_from_const Let_def)
  ultimately show ?thesis
    by (simp add: ewm_mean_def default_strategy_def signal_ema_def)
qed

lemma signal_ema_nth:
  "signal_ema ! 99 = 1.038" "signal_ema ! 100 = 10901 / 10500"
  by (simp_all add: signal_ema_def nth_append)

lemma signal_ema_slope: "diff signal_ema ! 100 = Some (1 / 5250)"
proof -
  have "length signal_ema = 101" by (simp add: signal_ema_def)
  then have "diff signal_ema ! 100 = Some (signal_ema ! 100 - signal_ema ! 99)"
    by (simp add: diff_def)
  then show ?thesis by (simp add: signal_ema_nth)
qed

lemma signal_df_volume_ma:
  "rolling_mean 20 (map volume signal_df) ! 99 = Some (119 / 20)"
proof -
  have v: "map volume signal_df = 1 # replicate 98 1 @ [100, 1]"
    by (simp add: signal_df_def quiet_bar_def rejection_bar_def confirm_bar_def)
  have "take 20 (drop 80 (1 # replicate 98 1 @ [100, 1 :: real])) = replicate 19 1 @ [100]"
    by (simp add: drop_Cons' take_Cons')
  then have "sum_list (take 20 (drop 80 (map volume signal_df))) = 119"
    by (simp add: v sum_list_replicate)
  moreover have "99 < length (map volume signal_df)"
    by (simp add: signal_df_length)
  ultimately show ?thesis
    by (simp add: rolling_mean_def)
qed


lemma signal_df_conditions:
  assumes "calculate_indicators default_strategy signal_df = Inr idf"
  shows "is_london_session (name (idf ! 100))"
    and "at_key_level (idf ! 100)"
    and "volume_spike (idf ! (100 - 1))"
    and "bullish_rejection default_strategy (idf ! (100 - 1))"
    and "bullish_confirm (idf ! 100) (idf ! (100 - 1))"
    and "strong_body default_strategy (idf ! 100)"
    and "ema_bullish (idf ! 100)"
    and "long_signal default_strategy (idf ! 100) 100
           = \<lparr> timestamp = ts0, direction = ''LONG'', entry_price = 1.04, stop_loss = 1.0385,
               tp1 = 1.042, tp2 = 1.043, level_type = ''Round'', entry_index = 100 \<rparr>"
proof -
  let ?row = "indicator_row default_strategy signal_df signal_ema"
  from calculate_indicators_rows(2) [OF assms] signal_df_ema
  have rows: "idf ! 100 = ?row 100" "idf ! (100 - 1) = ?row 99"
    by (simp_all add: signal_df_length)
  have "is_london_session (name (?row 100))"
    by (simp add: indicator_row_fields signal_df_nth confirm_bar_def is_london_session_def ts0_def)
  then show "is_london_session (name (idf ! 100))" by (simp only: rows)
  have round: "at_round_number (?row 100)"
    by (simp add: at_round_number_def is_near_round_number_def indicator_row_fields signal_df_nth
        confirm_bar_def pip_value_def py_int_def Let_def)
  then have "at_key_level (?row 100)"
    by (simp add: at_key_level_def)
  then show "at_key_level (idf ! 100)" by (simp only: rows)
  have "volume_spike (?row 99)"
    by (simp add: indicator_row_fields signal_df_volume_ma signal_df_nth rejection_bar_def
        default_strategy_def)
  then show "volume_spike (idf ! (100 - 1))" by (simp only: rows)
  have "bullish_rejection default_strategy (?row 99)"
    by (simp add: bullish_rejection_def indicator_row_fields signal_df_nth rejection_bar_def
        default_strategy_def price_to_pips_def pip_value_def)
  then show "bullish_rejection default_strategy (idf ! (100 - 1))" by (simp only: rows)
  have "bullish_confirm (?row 100) (?row 99)"
    by (simp add: bullish_confirm_def indicator_row_fields signal_df_nth rejection_bar_def
        confirm_bar_def)
  then show "bullish_confirm (idf ! 100) (idf ! (100 - 1))" by (simp only: rows)
  have "strong_body default_strategy (?row 100)"
    by (simp add: strong_body_def indicator_row_fields signal_df_nth confirm_bar_def
        default_strategy_def price_to_pips_def pip_value_def)
  then show "strong_body default_strategy (idf ! 100)" by (simp only: rows)
  have "ema_bullish (?row 100)"
    by (simp add: ema_bullish_def indicator_row_fields signal_ema_slope signal_ema_nth
        signal_df_nth confirm_bar_def)
  then show "ema_bullish (idf ! 100)" by (simp only: rows)
  have "long_signal default_strategy (?row 100) 100
      = \<lparr> timestamp = ts0, direction = ''LONG'', entry_price = 1.04, stop_loss = 1.0385,
          tp1 = 1.042, tp2 = 1.043, level_type = ''Round'', entry_index = 100 \<rparr>"
    using round
    by (simp add: long_signal_def indicator_row_fields signal_df_nth confirm_bar_def
        default_strategy_def pips_to_price_def pip_value_def)
  then show "long_signal default_strategy (idf ! 100) 100
      = \<lparr> timestamp = ts0, direction = ''LONG'', entry_price = 1.04, stop_loss = 1.0385,
          tp1 = 1.042, tp2 = 1.043, level_type = ''Round'', entry_index = 100 \<rparr>"
    by (simp only: rows)
qed

lemma signal_df_indicators:
  "\<exists>idf. calculate_indicators default_strategy signal_df = Inr idf"
  using signal_df_ema by (simp add: calculate_indicators_def)

lemma signal_df_signals:
  "detect_signals default_strategy signal_df
     = Inr [\<lparr> timestamp = ts0, direction = ''LONG'', entry_price = 1.04, stop_loss = 1.0385,
              tp1 = 1.042, tp2 = 1.043, level_type = ''Round'', entry_index = 100 \<rparr>]"
proof -
  from signal_df_indicators obtain idf where
    idf: "calculate_indicators default_strategy signal_df = Inr idf" by blast
  have "length idf = 101"
    using calculate_indicators_rows(1) [OF idf] by (simp add: signal_df_length)
  then have "[100..<length idf] = [100]"
    by (simp add: upt_rec)
  moreover have "detect_step default_strategy idf 100 []
      = [long_signal default_strategy (idf ! 100) 100]"
    by (rule detect_step_long) (rule signal_df_conditions [OF idf])+
  ultimately show ?thesis
    using idf signal_df_conditions(8) [OF idf] by (simp add: detect_signals_def)
qed

lemma detect_signals_short:
  assumes "length df \<le> 100" and "1 \<le> ema_length cfg"
  shows "detect_signals cfg df = Inr []"
  using assms by (simp add: detect_signals_def calculate_indicators_def ewm_mean_def)

text \<open>
  C6. The constructor validates nothing: for every choice of the seven parameters it
  returns a strategy that stores them unchanged, and never an error.
\<close>

theorem init_stores_parameters:
  "LondonImbalanceStrategy_init vm mw mb el sl t1 t2 =
     Inr \<lparr> volume_multiplier = vm, min_wick_pips = mw, min_body_pips = mb, ema_length = el,
           stop_loss_pips = sl, tp1_pips = t1, tp2_pips = t2 \<rparr>"
  by (simp add: LondonImbalanceStrategy_init_def)

text \<open>
  C6 with a rejection of invalid parameters does not hold: a volume multiplier of 0 and a
  stop distance of -15 pips are accepted by the constructor, and signal detection then runs
  with them.
\<close>

theorem init_accepts_invalid:
  "LondonImbalanceStrategy_init 0 8 5 20 (-15) 20 30 = Inr bad_strategy
   \<and> volume_multiplier bad_strategy \<le> 0 \<and> stop_loss_pips bad_strategy \<le> 0
   \<and> detect_signals bad_strategy single_df = Inr []"
proof -
  have "detect_signals bad_strategy single_df = Inr []"
    by (rule detect_signals_short) (simp_all add: single_df_def bad_strategy_def)
  then show ?thesis
    by (simp add: LondonImbalanceStrategy_init_def bad_strategy_def)
qed

text \<open>
  C7. On an input of at most 100 rows, with an EMA length of at least 1, signal detection
  raises nothing and returns the empty signal list.
\<close>

theorem short_input_returns_no_signal:
  assumes "length df \<le> 100" and "1 \<le> ema_length cfg"
  shows "detect_signals cfg df = Inr []"
  using assms by (rule detect_signals_short)

theorem short_input_returns_no_signal_witness:
  "length both_df \<le> 100 \<and> 1 \<le> ema_length default_strategy
   \<and> detect_signals default_strategy both_df = Inr []"
proof -
  have a: "length both_df \<le> 100" by (simp add: both_df_def)
  have b: "1 \<le> ema_length default_strategy" by (simp add: default_strategy_def)
  from short_input_returns_no_signal [OF a b] a b show ?thesis by simp
qed

text \<open>
  C7 with an error on short input does not hold: on a one-row input, far below the 100 rows
  of warmup, signal detection returns the empty list.
\<close>

theorem short_input_not_rejected:
  "length single_df < 100 \<and> detect_signals default_strategy single_df = Inr []"
proof -
  have "detect_signals default_strategy single_df = Inr []"
    by (rule detect_signals_short) (simp_all add: single_df_def default_strategy_def)
  then show ?thesis by (simp add: single_df_def)
qed

text \<open>
  C8. In the signals returned by \<open>detect_signals\<close>, at most one has any given bar \<open>i\<close> as its
  entry index. If bar \<open>i\<close> is scanned, passes the session, location and volume checks and
  satisfies the Long conditions (rejection, confirmation, body, trend alignment), the one
  signal of that bar is the Long signal, whatever the Short conditions are.
\<close>

theorem one_signal_per_bar_long_first:
  assumes "calculate_indicators cfg df = Inr idf" and "detect_signals cfg df = Inr sigs"
  shows "length (filter (\<lambda>s. entry_index s = int i) sigs) \<le> 1 \<and>
         (100 \<le> i \<and> i < length df \<and> is_london_session (name (idf ! i)) \<and> at_key_level (idf ! i)
            \<and> volume_spike (idf ! (i - 1))
            \<and> bullish_rejection cfg (idf ! (i - 1)) \<and> bullish_confirm (idf ! i) (idf ! (i - 1))
            \<and> strong_body cfg (idf ! i) \<and> ema_bullish (idf ! i)
          \<longrightarrow> filter (\<lambda>s. entry_index s = int i) sigs = [long_signal cfg (idf ! i) i])"
proof -
  note f = detect_signals_filter [OF assms, of i]
  have "length (filter (\<lambda>s. entry_index s = int i) sigs) \<le> 1"
    using f detect_step_cases [of cfg idf i] by (auto split: if_splits)
  moreover have "filter (\<lambda>s. entry_index s = int i) sigs = [long_signal cfg (idf ! i) i]"
    if "100 \<le> i" "i < length df" "is_london_session (name (idf ! i))" "at_key_level (idf ! i)"
       "volume_spike (idf ! (i - 1))" "bullish_rejection cfg (idf ! (i - 1))"
       "bullish_confirm (idf ! i) (idf ! (i - 1))" "strong_body cfg (idf ! i)" "ema_bullish (idf ! i)"
    using f that detect_step_long [of idf i cfg] by simp
  ultimately show ?thesis by blast
qed

theorem one_signal_per_bar_long_first_witness:
  "\<exists>idf sigs. calculate_indicators default_strategy signal_df = Inr idf
     \<and> detect_signals default_strategy signal_df = Inr sigs
     \<and> length (filter (\<lambda>s. entry_index s = int 100) sigs) \<le> 1
     \<and> bullish_rejection default_strategy (idf ! (100 - 1))
     \<and> bullish_confirm (idf ! 100) (idf ! (100 - 1))
     \<and> strong_body default_strategy (idf ! 100) \<and> ema_bullish (idf ! 100)
     \<and> filter (\<lambda>s. entry_index s = int 100) sigs
          = [\<lparr> timestamp = ts0, direction = ''LONG'', entry_price = 1.04, stop_loss = 1.0385,
                tp1 = 1.042, tp2 = 1.043, level_type = ''Round'', entry_index = 100 \<rparr>]"
proof -
  from signal_df_indicators obtain idf where
    idf: "calculate_indicators default_strategy signal_df = Inr idf" by blast
  note c = signal_df_conditions [OF idf]
  have len: "100 \<le> (100::nat)" "100 < length signal_df" by (simp_all add: signal_df_length)
  from one_signal_per_bar_long_first [OF idf signal_df_signals, of 100] len c
  have "length (filter (\<lambda>s. entry_index s = int 100)
          [\<lparr> timestamp = ts0, direction = ''LONG'', entry_price = 1.04, stop_loss = 1.0385,
              tp1 = 1.042, tp2 = 1.043, level_type = ''Round'', entry_index = 100 \<rparr>]) \<le> 1"
    and "filter (\<lambda>s. entry_index s = int 100)
          [\<lparr> timestamp = ts0, direction = ''LONG'', entry_price = 1.04, stop_loss = 1.0385,
              tp1 = 1.042, tp2 = 1.043, level_type = ''Round'', entry_index = 100 \<rparr>]
          = [\<lparr> timestamp = ts0, direction = ''LONG'', entry_price = 1.04, stop_loss = 1.0385,
                tp1 = 1.042, tp2 = 1.043, level_type = ''Round'', entry_index = 100 \<rparr>]"
    by simp_all
  with idf signal_df_signals c show ?thesis by blast
qed

text \<open>
  C9. Every signal returned by \<open>detect_signals\<close> has an entry index in \<open>[100, len(df))\<close> and
  its entry price is the close \<open>c\<close> of that bar. A Long signal has its stop at \<open>c\<close> minus
  \<open>stop_loss_pips\<close> pips and its targets at \<open>c\<close> plus \<open>tp1_pips\<close> and \<open>tp2_pips\<close> pips (a pip
  is 0.0001); a Short signal mirrors this. In particular a Long signal with entry 1.0400
  and distances 15, 20 and 30 pips has stop 1.0385 and targets 1.0420 and 1.0430.
\<close>

theorem signal_price_levels:
  assumes "detect_signals cfg df = Inr sigs" and "s \<in> set sigs"
    and "c = close (df ! nat (entry_index s))"
  shows "100 \<le> entry_index s \<and> entry_index s < int (length df) \<and> entry_price s = c \<and>
         ((direction s = ''LONG'' \<and> stop_loss s = c - stop_loss_pips cfg * 0.0001
             \<and> tp1 s = c + tp1_pips cfg * 0.0001 \<and> tp2 s = c + tp2_pips cfg * 0.0001) \<or>
          (direction s = ''SHORT'' \<and> stop_loss s = c + stop_loss_pips cfg * 0.0001
             \<and> tp1 s = c - tp1_pips cfg * 0.0001 \<and> tp2 s = c - tp2_pips cfg * 0.0001)) \<and>
         (direction s = ''LONG'' \<and> entry_price s = 1.04 \<and> stop_loss_pips cfg = 15
             \<and> tp1_pips cfg = 20 \<and> tp2_pips cfg = 30
          \<longrightarrow> stop_loss s = 1.0385 \<and> tp1 s = 1.042 \<and> tp2 s = 1.043)"
proof -
  from assms(1) obtain idf where idf: "calculate_indicators cfg df = Inr idf"
    by (auto simp: detect_signals_def split: sum.splits)
  from detect_signals_member [OF idf assms(1,2)] obtain i where
    i: "100 \<le> i" "i < length df"
       "s = long_signal cfg (idf ! i) i \<or> s = short_signal cfg (idf ! i) i"
    by blast
  have cl: "close (idf ! i) = close (df ! i)"
    by (rule calculate_indicators_close(1) [OF idf i(2)])
  from i(3) show ?thesis
  proof
    assume "s = long_signal cfg (idf ! i) i"
    with i(1,2) cl assms(3) show ?thesis
      by (simp add: long_signal_def pips_to_price_def pip_value_def)
  next
    assume "s = short_signal cfg (idf ! i) i"
    with i(1,2) cl assms(3) show ?thesis
      by (simp add: short_signal_def pips_to_price_def pip_value_def)
  qed
qed

theorem signal_price_levels_witness:
  "detect_signals default_strategy signal_df
     = Inr [\<lparr> timestamp = ts0, direction = ''LONG'', entry_price = 1.04, stop_loss = 1.0385,
              tp1 = 1.042, tp2 = 1.043, level_type = ''Round'', entry_index = 100 \<rparr>]
   \<and> close (signal_df ! 100) = 1.04
   \<and> stop_loss_pips default_strategy = 15 \<and> tp1_pips default_strategy = 20
   \<and> tp2_pips default_strategy = 30"
proof -
  let ?s = "\<lparr> timestamp = ts0, direction = ''LONG'', entry_price = 1.04, stop_loss = 1.0385,
              tp1 = 1.042, tp2 = 1.043, level_type = ''Round'', entry_index = 100 \<rparr>"
  have "?s \<in> set [?s]" by simp
  from signal_price_levels [OF signal_df_signals this refl] signal_df_signals
  show ?thesis
    by (simp add: signal_df_nth confirm_bar_def default_strategy_def)
qed

end
